theory Spec2Isabelle
  imports Main "HOL-Library.Finite_Map"
begin

section \<open>Values\<close>

text \<open>
  The server of \<^verbatim>\<open>server.js\<close> keeps a list of todos in the file \<^verbatim>\<open>todos.json\<close> and
  answers HTTP requests by reading the whole file, changing the list in memory and
  writing the whole file back. The development below embeds the five repository
  functions (\<^verbatim>\<open>readTodos\<close>, \<^verbatim>\<open>getTodoById\<close>, \<^verbatim>\<open>createTodo\<close>, \<^verbatim>\<open>updateTodo\<close>,
  \<^verbatim>\<open>deleteTodo\<close>), the log listener and the request handler.

  A JSON document is a tree: the text of a file or of a body is taken up to white space
  and up to the order of the members of an object. A number of a document is the double
  that \<^verbatim>\<open>JSON.parse\<close> reads from its text, and the documents covered are those whose
  numbers are integers; numbers with a fraction are outside the embedding. A string is a
  sequence of code units below 256, one \<open>char\<close> each; strings with other characters
  are outside the embedding.
\<close>

datatype json =
    JNull
  | JBool bool
  | JNum int
  | JStr string
  | JArr "json list"
  | JObj "(string, json) fmap"

text \<open>
  A value in memory is a JSON tree or one of the two values JSON cannot write,
  \<^verbatim>\<open>undefined\<close> and \<^verbatim>\<open>NaN\<close>.
\<close>

datatype jsval =
    Undefined
  | Null
  | Bool bool
  | Num int
  | NaN
  | Str string
  | Arr "jsval list"
  | Obj "(string, jsval) fmap"

text \<open>
  Every exception of the program is an error object of which only the class and the
  message are read. The messages of the errors the engine raises itself are the
  engine's; no branch of the program depends on them.
\<close>

datatype error =
    Error string
  | TypeError string
  | ReferenceError string
  | SyntaxError string
  | SystemError string

fun message :: "error \<Rightarrow> string" where
  "message (Error m) = m"
| "message (TypeError m) = m"
| "message (ReferenceError m) = m"
| "message (SyntaxError m) = m"
| "message (SystemError m) = m"

subsection \<open>\<^verbatim>\<open>JSON.parse\<close> and \<^verbatim>\<open>JSON.stringify\<close>\<close>

text \<open>
  The text of a file is either the text of a JSON document or something else, on which
  \<^verbatim>\<open>JSON.parse\<close> throws a SyntaxError.
\<close>

datatype content = Garbage | Doc json

primrec of_json :: "json \<Rightarrow> jsval" where
  "of_json JNull = Null"
| "of_json (JBool b) = Bool b"
| "of_json (JNum n) = Num n"
| "of_json (JStr s) = Str s"
| "of_json (JArr xs) = Arr (map of_json xs)"
| "of_json (JObj m) = Obj (fmmap of_json m)"

fun JSON_parse :: "content \<Rightarrow> error + jsval" where
  "JSON_parse Garbage = Inl (SyntaxError ''Unexpected token'')"
| "JSON_parse (Doc d) = Inr (of_json d)"

text \<open>
  \<^verbatim>\<open>JSON.stringify\<close> returns \<^verbatim>\<open>undefined\<close> (here \<open>None\<close>) on \<^verbatim>\<open>undefined\<close>, writes
  \<^verbatim>\<open>NaN\<close> as \<^verbatim>\<open>null\<close>, writes an \<^verbatim>\<open>undefined\<close> element of an array as \<^verbatim>\<open>null\<close> and
  leaves out a member of an object whose value is \<^verbatim>\<open>undefined\<close>.
\<close>

definition fm_somes :: "('k, 'v option) fmap \<Rightarrow> ('k, 'v) fmap" where
  "fm_somes m = fmmap the (fmfilter (\<lambda>k. fmlookup m k \<noteq> Some None) m)"

primrec JSON_stringify :: "jsval \<Rightarrow> json option" where
  "JSON_stringify Undefined = None"
| "JSON_stringify Null = Some JNull"
| "JSON_stringify (Bool b) = Some (JBool b)"
| "JSON_stringify (Num n) = Some (JNum n)"
| "JSON_stringify NaN = Some JNull"
| "JSON_stringify (Str s) = Some (JStr s)"
| "JSON_stringify (Arr xs) =
     Some (JArr (map (\<lambda>j. case j of None \<Rightarrow> JNull | Some d \<Rightarrow> d) (map JSON_stringify xs)))"
| "JSON_stringify (Obj m) = Some (JObj (fm_somes (fmmap JSON_stringify m)))"

subsection \<open>The operators of the language the program uses\<close>

fun truthy :: "jsval \<Rightarrow> bool" where
  "truthy Undefined = False"
| "truthy Null = False"
| "truthy (Bool b) = b"
| "truthy (Num n) = (n \<noteq> 0)"
| "truthy NaN = False"
| "truthy (Str s) = (s \<noteq> [])"
| "truthy (Arr xs) = True"
| "truthy (Obj m) = True"

text \<open>\<^verbatim>\<open>x || false\<close>\<close>

definition or_false :: "jsval \<Rightarrow> jsval" where
  "or_false x = (if truthy x then x else Bool False)"

text \<open>
  \<^verbatim>\<open>v.id\<close>, \<^verbatim>\<open>v.title\<close>, \<^verbatim>\<open>v.completed\<close>: reading a property of \<^verbatim>\<open>undefined\<close> or
  \<^verbatim>\<open>null\<close> throws; an object gives its member or \<^verbatim>\<open>undefined\<close>; numbers, booleans,
  strings and arrays have none of the three properties.
\<close>

fun get_prop :: "jsval \<Rightarrow> string \<Rightarrow> error + jsval" where
  "get_prop Undefined k = Inl (TypeError ''Cannot read properties of undefined'')"
| "get_prop Null k = Inl (TypeError ''Cannot read properties of null'')"
| "get_prop (Obj m) k = Inr (case fmlookup m k of None \<Rightarrow> Undefined | Some v \<Rightarrow> v)"
| "get_prop v k = Inr Undefined"

fun string_of_nat :: "nat \<Rightarrow> string" where
  "string_of_nat n =
     (if n < 10 then [''0123456789'' ! n]
      else string_of_nat (n div 10) @ [''0123456789'' ! (n mod 10)])"

declare string_of_nat.simps [simp del]

subsection \<open>Numbers\<close>

text \<open>
  A number in memory is a double. \<open>Num n\<close> is the double whose value is the integer
  \<open>n\<close>; the result of an operation is rounded to the nearest double, to the one with
  the even significand when two are equally near. \<open>exponent m\<close> is the number of binary
  digits \<open>m\<close> has beyond 53. What lies beyond the largest double is rounded to
  \<^verbatim>\<open>Infinity\<close>, for which the integer \<open>2 ^ 1024\<close> stands, which is no double.
\<close>

function exponent :: "int \<Rightarrow> nat" where
  "exponent m = (if m < 9007199254740992 then 0 else Suc (exponent (m div 2)))"
  by pat_completeness auto
termination
  by (relation "measure nat") auto

declare exponent.simps [simp del]

definition round_even :: "int \<Rightarrow> int" where
  "round_even m =
     (let e = exponent m; q = m div 2 ^ e; r = m mod 2 ^ e;
          q' = (if 2 ^ e < 2 * r \<or> (2 * r = 2 ^ e \<and> odd q) then q + 1 else q)
      in min (q' * 2 ^ e) (2 ^ 1024))"

definition to_double :: "int \<Rightarrow> int" where
  "to_double n = sgn n * round_even \<bar>n\<bar>"

text \<open>
  \<^verbatim>\<open>Number.prototype.toString\<close> writes the decimal number with the fewest significant
  digits that reads back as the same double, the nearest of them when there are several;
  with up to 21 digits it is written in full, with more by its significant digits and an
  exponent.
\<close>

function decimal_digits :: "int \<Rightarrow> string" where
  "decimal_digits m =
     (if m < 10 then [''0123456789'' ! nat m]
      else decimal_digits (m div 10) @ [''0123456789'' ! nat (m mod 10)])"
  by pat_completeness auto
termination
  by (relation "measure nat") auto

declare decimal_digits.simps [simp del]

definition candidates :: "int \<Rightarrow> int \<Rightarrow> int list" where
  "candidates m scale =
     (let lo = (m div scale) * scale
      in filter (\<lambda>v. round_even v = m) [lo, lo + scale])"

definition closest :: "int \<Rightarrow> int \<Rightarrow> int list \<Rightarrow> int" where
  "closest m scale vs =
     (case vs of
        [] \<Rightarrow> m
      | [v] \<Rightarrow> v
      | lo # hi # _ \<Rightarrow>
          if m - lo < hi - m then lo
          else if hi - m < m - lo then hi
          else if even (lo div scale) then lo else hi)"

definition printed :: "int \<Rightarrow> int" where
  "printed m =
     (let D = length (decimal_digits m)
      in case List.find (\<lambda>k. candidates m (10 ^ (D - k)) \<noteq> []) [1 ..< Suc D] of
           None \<Rightarrow> m
         | Some k \<Rightarrow> closest m (10 ^ (D - k)) (candidates m (10 ^ (D - k))))"

definition strip_zeros :: "string \<Rightarrow> string" where
  "strip_zeros ds = rev (dropWhile (\<lambda>c. c = CHR ''0'') (rev ds))"

definition Number_toString :: "int \<Rightarrow> string" where
  "Number_toString n =
     (let m = \<bar>n\<bar>; sign = (if n < 0 then ''-'' else [])
      in if 2 ^ 1024 \<le> m then sign @ ''Infinity''
         else let ds = decimal_digits (printed m)
              in if length ds \<le> 21 then sign @ ds
                 else (case strip_zeros ds of
                         [] \<Rightarrow> sign @ ds
                       | d # rest \<Rightarrow>
                           sign @ [d] @ (if rest = [] then [] else ''.'' @ rest)
                             @ ''e+'' @ string_of_nat (length ds - 1)))"

fun join :: "string list \<Rightarrow> string" where
  "join [] = []"
| "join [s] = s"
| "join (s # t # ss) = s @ '','' @ join (t # ss)"

text \<open>The conversion of a value to a string, as \<^verbatim>\<open>+\<close> and \<^verbatim>\<open>parseInt\<close> apply it.\<close>

fun ToString :: "jsval \<Rightarrow> string" where
  "ToString Undefined = ''undefined''"
| "ToString Null = ''null''"
| "ToString (Bool b) = (if b then ''true'' else ''false'')"
| "ToString (Num n) = Number_toString n"
| "ToString NaN = ''NaN''"
| "ToString (Str s) = s"
| "ToString (Arr xs) =
     join (map (\<lambda>x. if x = Undefined \<or> x = Null then [] else ToString x) xs)"
| "ToString (Obj m) = ''[object Object]''"

text \<open>\<^verbatim>\<open>lastId + 1\<close>: addition of doubles on numbers, so the sum is rounded (and
  \<^verbatim>\<open>2 ^ 53 + 1\<close> is \<^verbatim>\<open>2 ^ 53\<close>); concatenation as soon as the left side is a string,
  an array or an object.\<close>

fun plus_one :: "jsval \<Rightarrow> jsval" where
  "plus_one Undefined = NaN"
| "plus_one Null = Num 1"
| "plus_one (Bool b) = Num (if b then 2 else 1)"
| "plus_one (Num n) = Num (to_double (n + 1))"
| "plus_one NaN = NaN"
| "plus_one v = Str (ToString v @ ''1'')"

text \<open>
  \<^verbatim>\<open>{ ...v }\<close> copies the members of an object, the elements of an array and the
  characters of a string under their indices, and nothing of any other value.
\<close>

definition indexed :: "'a list \<Rightarrow> (string \<times> 'a) list" where
  "indexed xs = zip (map string_of_nat [0 ..< length xs]) xs"

fun spread :: "jsval \<Rightarrow> (string, jsval) fmap" where
  "spread (Obj m) = m"
| "spread (Arr xs) = fmap_of_list (indexed xs)"
| "spread (Str s) = fmap_of_list (indexed (map (\<lambda>c. Str [c]) s))"
| "spread v = fmempty"

text \<open>\<^verbatim>\<open>s.startsWith(p)\<close> and \<^verbatim>\<open>s.includes(p)\<close>\<close>

definition startsWith :: "string \<Rightarrow> string \<Rightarrow> bool" where
  "startsWith s p = (take (length p) s = p)"

fun includes_str :: "string \<Rightarrow> string \<Rightarrow> bool" where
  "includes_str [] p = (p = [])"
| "includes_str (c # cs) p = (startsWith (c # cs) p \<or> includes_str cs p)"

subsection \<open>\<^verbatim>\<open>parseInt\<close>\<close>

text \<open>
  \<^verbatim>\<open>parseInt(v)\<close> with no radix: the argument is converted to a string, leading white
  space is dropped, a sign is read, a prefix \<^verbatim>\<open>0x\<close> or \<^verbatim>\<open>0X\<close> selects base 16, and
  the longest run of digits of the base is the value, rounded to a double; with no digit
  the result is \<^verbatim>\<open>NaN\<close>, here \<open>None\<close>. The white space among the code units below 256
  is TAB, LF, VT, FF, CR, the space and the no-break space U+00A0.
\<close>

definition is_space :: "char \<Rightarrow> bool" where
  "is_space c =
     (c \<in> set [CHR 0x09, CHR 0x0A, CHR 0x0B, CHR 0x0C, CHR 0x0D, CHR '' '', CHR 0xA0])"

fun index_of :: "'a \<Rightarrow> 'a list \<Rightarrow> nat option" where
  "index_of c [] = None"
| "index_of c (x # xs) = (if c = x then Some 0 else map_option Suc (index_of c xs))"

definition digit_value :: "nat \<Rightarrow> char \<Rightarrow> nat option" where
  "digit_value radix c =
     (case index_of c ''0123456789abcdef'' of
        Some d \<Rightarrow> if d < radix then Some d else None
      | None \<Rightarrow>
          (case index_of c ''ABCDEF'' of
             Some d \<Rightarrow> if d + 10 < radix then Some (d + 10) else None
           | None \<Rightarrow> None))"

fun digits :: "nat \<Rightarrow> string \<Rightarrow> nat option \<Rightarrow> nat option" where
  "digits radix [] acc = acc"
| "digits radix (c # cs) acc =
     (case digit_value radix c of
        None \<Rightarrow> acc
      | Some d \<Rightarrow> digits radix cs (Some ((case acc of None \<Rightarrow> 0 | Some a \<Rightarrow> a) * radix + d)))"

definition parseInt :: "jsval \<Rightarrow> int option" where
  "parseInt v =
     (let s = dropWhile is_space (ToString v);
          (sign, s1) = (case s of
                          c # cs \<Rightarrow> if c = CHR ''-'' then (- 1, cs)
                                    else if c = CHR ''+'' then (1, cs) else (1, s)
                        | [] \<Rightarrow> (1, s));
          (radix, s2) = (if startsWith s1 ''0x'' \<or> startsWith s1 ''0X''
                         then (16, drop 2 s1) else (10, s1))
      in map_option (\<lambda>n. to_double (sign * int n)) (digits radix s2 None))"

section \<open>The files and the console\<close>

text \<open>
  The state is what the program can see and change outside its own memory: the content
  of \<^verbatim>\<open>todos.json\<close> (\<open>None\<close> when it cannot be read), whether a write to it succeeds,
  the lines of \<^verbatim>\<open>logs.txt\<close>, whether an append to it succeeds, the time stamp the
  clock gives, the lines of the error console and the rejected promises that no handler
  took. \<open>fs_calls\<close> records each call of the file system, in order.
\<close>

datatype fs_call = ReadFile string | WriteFile string | AppendFile string

record state =
  todos_json :: "content option"
  todos_writable :: bool
  logs_txt :: "string list"
  logs_appendable :: bool
  clock :: string
  stderr :: "string list"
  unhandled :: "error list"
  fs_calls :: "fs_call list"

text \<open>\<^verbatim>\<open>console.error(label, ...)\<close>: the line is recorded by its label, and by the message
  where the program passes \<^verbatim>\<open>err.message\<close>.\<close>

definition console_error :: "string \<Rightarrow> state \<Rightarrow> state" where
  "console_error line s = s\<lparr>stderr := stderr s @ [line]\<rparr>"

text \<open>\<^verbatim>\<open>fs.readFile('todos.json', 'utf8')\<close>\<close>

definition fs_readFile :: "state \<Rightarrow> (error + content) \<times> state" where
  "fs_readFile s =
     (let s1 = s\<lparr>fs_calls := fs_calls s @ [ReadFile ''todos.json'']\<rparr>
      in case todos_json s of
           None \<Rightarrow> (Inl (SystemError ''ENOENT: no such file or directory''), s1)
         | Some c \<Rightarrow> (Inr c, s1))"

text \<open>\<^verbatim>\<open>fs.writeFile('todos.json', data)\<close>, where \<open>data\<close> is the result of
  \<^verbatim>\<open>JSON.stringify\<close>: \<^verbatim>\<open>undefined\<close> is refused as an argument, a document replaces the
  whole content when the file can be written.\<close>

definition fs_writeFile :: "json option \<Rightarrow> state \<Rightarrow> (error + unit) \<times> state" where
  "fs_writeFile data' s =
     (case data' of
        None \<Rightarrow> (Inl (TypeError ''The data argument must be of type string''), s)
      | Some d \<Rightarrow>
          (let s1 = s\<lparr>fs_calls := fs_calls s @ [WriteFile ''todos.json'']\<rparr>
           in if todos_writable s then (Inr (), s1\<lparr>todos_json := Some (Doc d)\<rparr>)
              else (Inl (SystemError ''EACCES: permission denied''), s1)))"

text \<open>\<^verbatim>\<open>fs.appendFile('logs.txt', line, ...)\<close>: the outcome of the promise it returns.\<close>

definition fs_appendFile :: "string \<Rightarrow> state \<Rightarrow> (error + unit) \<times> state" where
  "fs_appendFile line s =
     (let s1 = s\<lparr>fs_calls := fs_calls s @ [AppendFile ''logs.txt'']\<rparr>
      in if logs_appendable s then (Inr (), s1\<lparr>logs_txt := logs_txt s @ [line]\<rparr>)
         else (Inl (SystemError ''EACCES: permission denied''), s1))"

section \<open>The log listener\<close>

text \<open>
  \<^verbatim>\<open>fs\<close> is \<^verbatim>\<open>require('fs').promises\<close> (line 2 of the source), so \<^verbatim>\<open>fs.appendFile\<close>
  returns a promise and takes options, not a callback, as its third argument: the
  function the listener passes there is never called. The listener neither awaits the
  promise nor gives it a handler, so a failed append leaves a rejected promise that
  nothing handles; \<open>unhandled\<close> records it. What the runtime then does is its own
  policy and not in the program: a warning, or, by default in current versions of Node,
  the end of the process, before the request has read or written a file. The embedding
  follows the program text and lets the request go on; what is stated below about the
  answer to a request that reads or writes \<^verbatim>\<open>todos.json\<close> assumes a log that can be
  appended to.
\<close>

definition log_listener :: "string \<Rightarrow> state \<Rightarrow> state" where
  "log_listener msg s =
     (let timeStamp = clock s
      in case fs_appendFile (timeStamp @ '' - '' @ msg @ [CHR 0x0A]) s of
           (Inl err, s1) \<Rightarrow> s1\<lparr>unhandled := unhandled s1 @ [err]\<rparr>
         | (Inr u, s1) \<Rightarrow> s1)"

text \<open>\<^verbatim>\<open>logs.emit('log', message)\<close> runs the one listener of the event.\<close>

definition logs_emit :: "string \<Rightarrow> state \<Rightarrow> state" where
  "logs_emit msg s = log_listener msg s"

section \<open>The repository functions\<close>

text \<open>
  An \<^verbatim>\<open>async\<close> function is a function from the state to the outcome of its promise
  (\<open>Inl\<close> a rejection, \<open>Inr\<close> the value) and the new state. One request runs to its end
  before the next one starts.
\<close>

text \<open>\<^verbatim>\<open>readTodos\<close>: the \<^verbatim>\<open>catch\<close> writes to the console and falls off the end of the
  function, so the promise is fulfilled with \<^verbatim>\<open>undefined\<close>.\<close>

definition readTodos :: "state \<Rightarrow> (error + jsval) \<times> state" where
  "readTodos s =
     (case fs_readFile s of
        (Inl err, s1) \<Rightarrow> (Inr Undefined, console_error ''Error reading file:'' s1)
      | (Inr content, s1) \<Rightarrow>
          (case JSON_parse content of
             Inl err \<Rightarrow> (Inr Undefined, console_error ''Error reading file:'' s1)
           | Inr todos \<Rightarrow> (Inr todos, s1)))"

text \<open>
  \<^verbatim>\<open>todos.find\<close>, \<^verbatim>\<open>todos.findIndex\<close>, \<^verbatim>\<open>todos.push\<close>: on \<^verbatim>\<open>undefined\<close> and \<^verbatim>\<open>null\<close>
  reading the method throws, and on every other value that is not an array the method
  is not a function; both are TypeErrors.
\<close>

fun as_array :: "jsval \<Rightarrow> string \<Rightarrow> error + jsval list" where
  "as_array (Arr xs) f = Inr xs"
| "as_array Undefined f = Inl (TypeError ''Cannot read properties of undefined'')"
| "as_array Null f = Inl (TypeError ''Cannot read properties of null'')"
| "as_array v f = Inl (TypeError (''todos.'' @ f @ '' is not a function''))"

text \<open>
  \<^verbatim>\<open>todos.find(todo_1 => todo_1.id === id)\<close> with a number \<open>tid\<close> that is not \<^verbatim>\<open>NaN\<close>:
  the first element whose id is that number, \<^verbatim>\<open>undefined\<close> when there is none.
\<close>

fun find_id :: "jsval list \<Rightarrow> int \<Rightarrow> error + jsval" where
  "find_id [] tid = Inr Undefined"
| "find_id (t # ts) tid =
     (case get_prop t ''id'' of
        Inl err \<Rightarrow> Inl err
      | Inr v \<Rightarrow> if v = Num tid then Inr t else find_id ts tid)"

text \<open>\<^verbatim>\<open>todos.findIndex(todo => todo.id === id)\<close>; \<open>None\<close> is the result \<^verbatim>\<open>-1\<close>.\<close>

fun findIndex_id :: "jsval list \<Rightarrow> int \<Rightarrow> error + nat option" where
  "findIndex_id [] tid = Inr None"
| "findIndex_id (t # ts) tid =
     (case get_prop t ''id'' of
        Inl err \<Rightarrow> Inl err
      | Inr v \<Rightarrow>
          if v = Num tid then Inr (Some 0)
          else (case findIndex_id ts tid of
                  Inl err \<Rightarrow> Inl err
                | Inr None \<Rightarrow> Inr None
                | Inr (Some i) \<Rightarrow> Inr (Some (Suc i))))"

text \<open>
  \<^verbatim>\<open>getTodoById\<close>. In the branch for a missing todo the argument \<^verbatim>\<open>err\<close> of
  \<^verbatim>\<open>new Error(`Todo id not found`, err)\<close> names no variable, so evaluating it throws a
  ReferenceError before the Error is made.
\<close>

definition getTodoById :: "int \<Rightarrow> state \<Rightarrow> (error + jsval) \<times> state" where
  "getTodoById tid s =
     (case readTodos s of
        (Inl err, s1) \<Rightarrow> (Inl err, s1)
      | (Inr todos, s1) \<Rightarrow>
          (case as_array todos ''find'' of
             Inl err \<Rightarrow> (Inl err, s1)
           | Inr xs \<Rightarrow>
               (case find_id xs tid of
                  Inl err \<Rightarrow> (Inl err, s1)
                | Inr todo \<Rightarrow>
                    if truthy todo then (Inr todo, s1)
                    else (Inl (ReferenceError ''err is not defined''), s1))))"

text \<open>
  The body of the \<^verbatim>\<open>try\<close> of \<^verbatim>\<open>createTodo\<close>. When \<open>todos\<close> is not an array, every path
  through the computation of \<open>lastId\<close> and of the new todo ends in a TypeError, at
  \<^verbatim>\<open>todos.push\<close> at the latest, and changes nothing before.
\<close>

definition createTodo_try :: "jsval \<Rightarrow> state \<Rightarrow> (error + jsval) \<times> state" where
  "createTodo_try newTodo s =
     (case readTodos s of
        (Inl err, s1) \<Rightarrow> (Inl err, s1)
      | (Inr todos, s1) \<Rightarrow>
          (case as_array todos ''push'' of
             Inl err \<Rightarrow> (Inl err, s1)
           | Inr xs \<Rightarrow>
               (case (if length xs > 0 then get_prop (last xs) ''id'' else Inr (Num 0)) of
                  Inl err \<Rightarrow> (Inl err, s1)
                | Inr lastId \<Rightarrow>
                    (case get_prop newTodo ''title'' of
                       Inl err \<Rightarrow> (Inl err, s1)
                     | Inr title \<Rightarrow>
                         (case get_prop newTodo ''completed'' of
                            Inl err \<Rightarrow> (Inl err, s1)
                          | Inr completed \<Rightarrow>
                              (let todo = Obj (fmap_of_list
                                     [(''id'', plus_one lastId),
                                      (''title'', title),
                                      (''completed'', or_false completed)]);
                                   todos' = Arr (xs @ [todo])
                               in case fs_writeFile (JSON_stringify todos') s1 of
                                    (Inl err, s2) \<Rightarrow> (Inl err, s2)
                                  | (Inr u, s2) \<Rightarrow> (Inr todo, s2)))))))"

text \<open>\<^verbatim>\<open>createTodo\<close>: the \<^verbatim>\<open>catch\<close> replaces every error by a new one. The second
  argument of \<^verbatim>\<open>new Error\<close> is an options object; it adds nothing to the message.\<close>

definition createTodo :: "jsval \<Rightarrow> state \<Rightarrow> (error + jsval) \<times> state" where
  "createTodo newTodo s =
     (case createTodo_try newTodo s of
        (Inl err, s1) \<Rightarrow> (Inl (Error ''Error creating todo:''), s1)
      | (Inr todo, s1) \<Rightarrow> (Inr todo, s1))"

text \<open>The body of the \<^verbatim>\<open>try\<close> of \<^verbatim>\<open>updateTodo\<close>; \<^verbatim>\<open>{ ...todos[index], ...updates }\<close> is
  the map of the first spread overridden by the second.\<close>

definition updateTodo_try :: "int \<Rightarrow> jsval \<Rightarrow> state \<Rightarrow> (error + jsval) \<times> state" where
  "updateTodo_try tid updates s =
     (case readTodos s of
        (Inl err, s1) \<Rightarrow> (Inl err, s1)
      | (Inr todos, s1) \<Rightarrow>
          (case as_array todos ''findIndex'' of
             Inl err \<Rightarrow> (Inl err, s1)
           | Inr xs \<Rightarrow>
               (case findIndex_id xs tid of
                  Inl err \<Rightarrow> (Inl err, s1)
                | Inr None \<Rightarrow> (Inl (Error ''Todo id not found''), s1)
                | Inr (Some index) \<Rightarrow>
                    (let xs' = xs[index := Obj (spread (xs ! index) ++\<^sub>f spread updates)]
                     in case fs_writeFile (JSON_stringify (Arr xs')) s1 of
                          (Inl err, s2) \<Rightarrow> (Inl err, s2)
                        | (Inr u, s2) \<Rightarrow> (Inr (xs' ! index), s2)))))"

text \<open>\<^verbatim>\<open>updateTodo\<close>: the \<^verbatim>\<open>catch\<close> throws \<^verbatim>\<open>new Error('Error updating todo:', err.message)\<close>,
  whose message is the first argument alone.\<close>

definition updateTodo :: "int \<Rightarrow> jsval \<Rightarrow> state \<Rightarrow> (error + jsval) \<times> state" where
  "updateTodo tid updates s =
     (case updateTodo_try tid updates s of
        (Inl err, s1) \<Rightarrow> (Inl (Error ''Error updating todo:''), s1)
      | (Inr todo, s1) \<Rightarrow> (Inr todo, s1))"

text \<open>The body of the \<^verbatim>\<open>try\<close> of \<^verbatim>\<open>deleteTodo\<close>; \<^verbatim>\<open>todos.splice(index, 1)[0]\<close> takes the
  element at \<open>index\<close> out of the array.\<close>

definition deleteTodo_try :: "int \<Rightarrow> state \<Rightarrow> (error + jsval) \<times> state" where
  "deleteTodo_try tid s =
     (case readTodos s of
        (Inl err, s1) \<Rightarrow> (Inl err, s1)
      | (Inr todos, s1) \<Rightarrow>
          (case as_array todos ''findIndex'' of
             Inl err \<Rightarrow> (Inl err, s1)
           | Inr xs \<Rightarrow>
               (case findIndex_id xs tid of
                  Inl err \<Rightarrow> (Inl err, s1)
                | Inr None \<Rightarrow> (Inl (Error ''Todo id not found''), s1)
                | Inr (Some index) \<Rightarrow>
                    (let removedTodo = xs ! index;
                         xs' = take index xs @ drop (Suc index) xs
                     in case fs_writeFile (JSON_stringify (Arr xs')) s1 of
                          (Inl err, s2) \<Rightarrow> (Inl err, s2)
                        | (Inr u, s2) \<Rightarrow> (Inr removedTodo, s2)))))"

text \<open>\<^verbatim>\<open>deleteTodo\<close>: the \<^verbatim>\<open>catch\<close> throws \<^verbatim>\<open>new Error('Error deleting todo:', err.message)\<close>,
  whose message is the first argument alone.\<close>

definition deleteTodo :: "int \<Rightarrow> state \<Rightarrow> (error + jsval) \<times> state" where
  "deleteTodo tid s =
     (case deleteTodo_try tid s of
        (Inl err, s1) \<Rightarrow> (Inl (Error ''Error deleting todo:''), s1)
      | (Inr todo, s1) \<Rightarrow> (Inr todo, s1))"

section \<open>The request handler\<close>

text \<open>
  A request is its method \<^verbatim>\<open>req.method\<close>, its url \<^verbatim>\<open>req.url\<close>, the value of
  \<^verbatim>\<open>url.parse(req.url, true).query.id\<close>
  (\<^verbatim>\<open>undefined\<close> when the query has no \<^verbatim>\<open>id\<close>, a string when it has one, an array of
  strings when it has several) and what \<^verbatim>\<open>JSON.parse\<close> makes of the collected body
  (\<open>None\<close> when it throws). Errors of the transport are outside the embedding.
\<close>

record request =
  req_method :: string
  req_url :: string
  query_id :: jsval
  body :: "json option"

datatype payload = Empty | Text string | Json json

record response =
  statusCode :: nat
  contentType :: "string option"
  payload :: payload

text \<open>\<^verbatim>\<open>res.end(JSON.stringify(v))\<close>; \<^verbatim>\<open>res.end(undefined)\<close> sends no body.\<close>

definition end_json :: "jsval \<Rightarrow> payload" where
  "end_json v = (case JSON_stringify v of None \<Rightarrow> Empty | Some d \<Rightarrow> Json d)"

definition error_body :: "string \<Rightarrow> payload" where
  "error_body m = end_json (Obj (fmap_of_list [(''error'', Str m)]))"

definition get_todos :: "request \<Rightarrow> state \<Rightarrow> response \<times> state" where
  "get_todos req s =
     (let s0 = logs_emit (req_method req @ '' - '' @ req_url req) s
      in case readTodos s0 of
           (Inr todos, s1) \<Rightarrow>
             (\<lparr>statusCode = 200, contentType = Some ''application/json'',
               payload = end_json todos\<rparr>, s1)
         | (Inl err, s1) \<Rightarrow>
             (\<lparr>statusCode = 500, contentType = None, payload = Text ''Failed to read todos''\<rparr>,
              console_error (''Failed to read todos: '' @ message err) s1))"

definition invalid_id :: response where
  "invalid_id = \<lparr>statusCode = 400, contentType = Some ''text/plain'', payload = Text ''Invalid id''\<rparr>"

definition get_todo :: "request \<Rightarrow> state \<Rightarrow> response \<times> state" where
  "get_todo req s =
     (let s0 = logs_emit (req_method req @ '' - '' @ req_url req) s
      in case parseInt (query_id req) of
           None \<Rightarrow> (invalid_id, s0)
         | Some tid \<Rightarrow>
             (case getTodoById tid s0 of
                (Inr todo, s1) \<Rightarrow>
                  (\<lparr>statusCode = 200, contentType = Some ''application/json'',
                    payload = end_json todo\<rparr>, s1)
              | (Inl err, s1) \<Rightarrow>
                  (\<lparr>statusCode = 500, contentType = None, payload = Text ''Failed to read todo''\<rparr>,
                   console_error (''Failed to fetch todo: '' @ message err) s1)))"

text \<open>The \<^verbatim>\<open>try\<close> of the POST handler covers \<^verbatim>\<open>JSON.parse\<close> and the read of
  \<^verbatim>\<open>parsedBody.title\<close>; the promise of \<^verbatim>\<open>createTodo\<close> has its own \<^verbatim>\<open>catch\<close>.\<close>

definition post_todo :: "request \<Rightarrow> state \<Rightarrow> response \<times> state" where
  "post_todo req s =
     (let s0 = logs_emit (req_method req @ '' - '' @ req_url req) s;
          invalid_body =
            (\<lparr>statusCode = 400, contentType = None, payload = Text ''Invalid request body''\<rparr>,
             console_error ''Error parsing request body:'' s0)
      in case body req of
           None \<Rightarrow> invalid_body
         | Some d \<Rightarrow>
             (let parsedBody = of_json d
              in case get_prop parsedBody ''title'' of
                   Inl err \<Rightarrow> invalid_body
                 | Inr title \<Rightarrow>
                     if \<not> truthy title then
                       (\<lparr>statusCode = 400, contentType = Some ''text/plain'',
                         payload = Text ''Invalid title''\<rparr>, s0)
                     else
                       (case get_prop parsedBody ''completed'' of
                          Inl err \<Rightarrow> invalid_body
                        | Inr completed \<Rightarrow>
                            (let newTodo = Obj (fmap_of_list
                                   [(''title'', title), (''completed'', or_false completed)])
                             in case createTodo newTodo s0 of
                                  (Inr todo, s1) \<Rightarrow>
                                    (\<lparr>statusCode = 200, contentType = Some ''application/json'',
                                      payload = end_json todo\<rparr>, s1)
                                | (Inl err, s1) \<Rightarrow>
                                    (\<lparr>statusCode = 500, contentType = None,
                                      payload = Text ''Failed to create newtodo''\<rparr>,
                                     console_error (''Failed to create newtodo: '' @ message err) s1)))))"

text \<open>The outer \<^verbatim>\<open>try\<close> of the PUT handler covers \<^verbatim>\<open>JSON.parse\<close> and the read of
  \<^verbatim>\<open>updates.title\<close>; the inner one answers 404 to every error of \<^verbatim>\<open>updateTodo\<close>.\<close>

definition put_todo :: "request \<Rightarrow> state \<Rightarrow> response \<times> state" where
  "put_todo req s =
     (let s0 = logs_emit (req_method req @ '' - '' @ req_url req) s;
          invalid_json =
            (\<lparr>statusCode = 400, contentType = None, payload = error_body ''Invalid JSON''\<rparr>,
             console_error ''Error parsing JSON in Put request'' s0)
      in case parseInt (query_id req) of
           None \<Rightarrow> (invalid_id, s0)
         | Some tid \<Rightarrow>
             (case body req of
                None \<Rightarrow> invalid_json
              | Some d \<Rightarrow>
                  (let updates = of_json d
                   in case get_prop updates ''title'' of
                        Inl err \<Rightarrow> invalid_json
                      | Inr title \<Rightarrow>
                          if \<not> truthy title then
                            (\<lparr>statusCode = 400, contentType = Some ''application/json'',
                              payload = error_body ''Title is requireed''\<rparr>, s0)
                          else
                            (case updateTodo tid updates s0 of
                               (Inr updatedTodo, s1) \<Rightarrow>
                                 (\<lparr>statusCode = 200, contentType = Some ''application/json'',
                                   payload = end_json updatedTodo\<rparr>, s1)
                             | (Inl err, s1) \<Rightarrow>
                                 (\<lparr>statusCode = 404, contentType = None,
                                   payload = error_body (message err)\<rparr>,
                                  console_error (''Failed to update todo: '' @ message err) s1)))))"

definition delete_todo :: "request \<Rightarrow> state \<Rightarrow> response \<times> state" where
  "delete_todo req s =
     (let s0 = logs_emit (req_method req @ '' - '' @ req_url req) s
      in case parseInt (query_id req) of
           None \<Rightarrow> (invalid_id, s0)
         | Some tid \<Rightarrow>
             (case deleteTodo tid s0 of
                (Inr removedTodo, s1) \<Rightarrow>
                  (\<lparr>statusCode = 200, contentType = Some ''application/json'',
                    payload = end_json removedTodo\<rparr>, s1)
              | (Inl err, s1) \<Rightarrow>
                  (let s2 = console_error (''Failed to delete todo: '' @ message err) s1
                   in if includes_str (message err) ''not found'' then
                        (\<lparr>statusCode = 404, contentType = None,
                          payload = error_body ''Todo not found''\<rparr>, s2)
                      else
                        (\<lparr>statusCode = 500, contentType = None,
                          payload = error_body ''Failed to delete todo''\<rparr>, s2))))"

definition server :: "request \<Rightarrow> state \<Rightarrow> response \<times> state" where
  "server req s =
     (if req_url req = ''/todos'' \<and> req_method req = ''GET'' then get_todos req s
      else if startsWith (req_url req) ''/todos/'' \<and> req_method req = ''GET'' then get_todo req s
      else if req_url req = ''/todos'' \<and> req_method req = ''POST'' then post_todo req s
      else if startsWith (req_url req) ''/todos/'' \<and> req_method req = ''PUT'' then put_todo req s
      else if startsWith (req_url req) ''/todos/'' \<and> req_method req = ''DELETE'' then delete_todo req s
      else (\<lparr>statusCode = 404, contentType = None, payload = Text ''Endpoint not found''\<rparr>, s))"

section \<open>Example states and requests\<close>

definition empty_store :: state where
  "empty_store =
     \<lparr>todos_json = Some (Doc (JArr [])), todos_writable = True, logs_txt = [],
      logs_appendable = True, clock = ''1/1/2025, 9:00:00 AM'', stderr = [],
      unhandled = [], fs_calls = []\<rparr>"

definition todo_json :: "int \<Rightarrow> string \<Rightarrow> bool \<Rightarrow> json" where
  "todo_json i t c =
     JObj (fmap_of_list [(''id'', JNum i), (''title'', JStr t), (''completed'', JBool c)])"

definition store_of :: "json list \<Rightarrow> state" where
  "store_of ts = empty_store\<lparr>todos_json := Some (Doc (JArr ts))\<rparr>"

definition GET_todos :: request where
  "GET_todos = \<lparr>req_method = ''GET'', req_url = ''/todos'', query_id = Undefined, body = None\<rparr>"

text \<open>A request by id whose id is written with letters, digits, signs and dots, which a
  url carries as they are.\<close>

definition by_id :: "string \<Rightarrow> string \<Rightarrow> json option \<Rightarrow> request" where
  "by_id m q b = \<lparr>req_method = m, req_url = ''/todos/?id='' @ q, query_id = Str q, body = b\<rparr>"

definition POST_todos :: "json option \<Rightarrow> request" where
  "POST_todos b = \<lparr>req_method = ''POST'', req_url = ''/todos'', query_id = Undefined, body = b\<rparr>"

section \<open>Routes and validation\<close>






section \<open>Collections of todos\<close>

text \<open>A todo is an object; its id is the member \<^verbatim>\<open>id\<close>, if it has one.\<close>

definition is_todo :: "json \<Rightarrow> bool" where
  "is_todo t = (case t of JObj m \<Rightarrow> True | _ \<Rightarrow> False)"

definition id_of :: "json \<Rightarrow> json option" where
  "id_of t = (case t of JObj m \<Rightarrow> fmlookup m ''id'' | _ \<Rightarrow> None)"

text \<open>The id of a todo when it is a number, and the numeric ids of a collection in
  the order of the entries.\<close>

definition num_id :: "json \<Rightarrow> int option" where
  "num_id t = (case id_of t of Some (JNum n) \<Rightarrow> Some n | _ \<Rightarrow> None)"

definition ids :: "json list \<Rightarrow> int list" where
  "ids ts = List.map_filter num_id ts"

text \<open>A collection is well ordered when every entry has a numeric id and the ids
  ascend.\<close>

definition well_ordered :: "json list \<Rightarrow> bool" where
  "well_ordered ts = ((\<forall>t \<in> set ts. num_id t \<noteq> None) \<and> sorted (ids ts))"

text \<open>\<^verbatim>\<open>todos.length > 0 ? todos[todos.length - 1].id : 0\<close> on such a collection.\<close>

definition last_id :: "json list \<Rightarrow> int" where
  "last_id ts = (if ts = [] then 0 else last (ids ts))"

text \<open>The ids of a collection are safe integers when each is below \<open>2 ^ 53\<close> in
  magnitude; adding 1 to a safe integer is exact.\<close>

definition safe_ids :: "json list \<Rightarrow> bool" where
  "safe_ids ts = list_all (\<lambda>m. \<bar>m\<bar> < 9007199254740992) (ids ts)"

section \<open>Collections the operations reach\<close>






section \<open>Ids in a query\<close>




section \<open>Errors of the repository functions and what the handler makes of them\<close>

lemma deleteTodo_error:
  "deleteTodo tid s = (Inl err, s') \<Longrightarrow> err = Error ''Error deleting todo:''"
  by (auto simp: deleteTodo_def split: prod.splits sum.splits)

lemma not_found_not_included: "\<not> includes_str ''Error deleting todo:'' ''not found''"
  by code_simp

lemma delete_todo_never_404: "statusCode (fst (delete_todo req s)) \<noteq> 404"
  using not_found_not_included
  by (auto simp: delete_todo_def invalid_id_def Let_def
      dest!: deleteTodo_error split: option.splits prod.splits sum.splits)

lemma readTodos_fulfilled: "\<exists>v. fst (readTodos s) = Inr v"
  by (auto simp: readTodos_def split: prod.splits sum.splits)

text \<open>
  C1. A DELETE of an id that no stored todo has should answer 404 with the body
  \<^verbatim>\<open>{"error":"Todo not found"}\<close>. The handler has that branch, for an error whose message
  includes \<^verbatim>\<open>not found\<close>; but \<^verbatim>\<open>deleteTodo\<close> replaces the error \<^verbatim>\<open>Todo id not found\<close> by
  one whose message is \<^verbatim>\<open>Error deleting todo:\<close>, so the request
  \<^verbatim>\<open>DELETE /todos/?id=99\<close> on the empty collection is answered 500 with the body
  \<^verbatim>\<open>{"error":"Failed to delete todo"}\<close>.
\<close>

theorem delete_missing_id_responds_500:
  "fst (server (by_id ''DELETE'' ''99'' None) empty_store) =
     \<lparr>statusCode = 500, contentType = None,
      payload = Json (JObj (fmap_of_list [(''error'', JStr ''Failed to delete todo'')]))\<rparr>"
  by code_simp

text \<open>
  C2. A failed load should reach the caller as an error, and \<^verbatim>\<open>GET /todos\<close> should then
  answer 500. \<^verbatim>\<open>readTodos\<close> catches the error, writes it to the console and is fulfilled
  with \<^verbatim>\<open>undefined\<close>; on a file that cannot be read, and on one that is not JSON,
  \<^verbatim>\<open>GET /todos\<close> answers 200 with no body.
\<close>

theorem get_todos_failed_load_responds_200:
  "fst (readTodos (empty_store\<lparr>todos_json := None\<rparr>)) = Inr Undefined
   \<and> fst (readTodos (empty_store\<lparr>todos_json := Some Garbage\<rparr>)) = Inr Undefined
   \<and> fst (server GET_todos (empty_store\<lparr>todos_json := None\<rparr>)) =
     \<lparr>statusCode = 200, contentType = Some ''application/json'', payload = Empty\<rparr>
   \<and> fst (server GET_todos (empty_store\<lparr>todos_json := Some Garbage\<rparr>)) =
     \<lparr>statusCode = 200, contentType = Some ''application/json'', payload = Empty\<rparr>"
  by code_simp

section \<open>The log\<close>

text \<open>
  C9. A failed append to the log should be reported on the error console and nowhere
  else. With \<^verbatim>\<open>logs.txt\<close> not appendable, \<^verbatim>\<open>GET /todos\<close> on the empty collection leaves
  the console empty: the function that would write \<^verbatim>\<open>Logging failed:\<close> is passed where
  the promise API takes options, and the rejection of the promise is left unhandled.
\<close>

theorem log_failure_not_reported:
  "stderr (snd (server GET_todos (empty_store\<lparr>logs_appendable := False\<rparr>))) = []
   \<and> unhandled (snd (server GET_todos (empty_store\<lparr>logs_appendable := False\<rparr>))) =
       [SystemError ''EACCES: permission denied'']"
  by code_simp

section \<open>Validation comes before the repository\<close>

lemma logs_emit_frame [simp]:
  "todos_json (logs_emit m s) = todos_json s"
  "todos_writable (logs_emit m s) = todos_writable s"
  "stderr (logs_emit m s) = stderr s"
  "fs_calls (logs_emit m s) = fs_calls s @ [AppendFile ''logs.txt'']"
  by (simp_all add: logs_emit_def log_listener_def fs_appendFile_def Let_def)

lemma console_error_frame [simp]:
  "todos_json (console_error l s) = todos_json s"
  "todos_writable (console_error l s) = todos_writable s"
  "fs_calls (console_error l s) = fs_calls s"
  "logs_txt (console_error l s) = logs_txt s"
  "unhandled (console_error l s) = unhandled s"
  "stderr (console_error l s) = stderr s @ [l]"
  by (simp_all add: console_error_def)









section \<open>Saving after loading\<close>

lemma fmlookup_fm_somes:
  "fmlookup (fm_somes m) k = (case fmlookup m k of Some (Some v) \<Rightarrow> Some v | _ \<Rightarrow> None)"
  by (auto simp: fm_somes_def split: option.splits)

lemma stringify_of_json: "JSON_stringify (of_json d) = Some d"
proof (induction d)
  case (JArr xs)
  then have "map (\<lambda>j. case j of None \<Rightarrow> JNull | Some d \<Rightarrow> d) (map JSON_stringify (map of_json xs)) = xs"
    by (induction xs) auto
  then show ?case by simp
next
  case (JObj m)
  have "fm_somes (fmmap JSON_stringify (fmmap of_json m)) = m"
  proof (rule fmap_ext)
    fix k
    show "fmlookup (fm_somes (fmmap JSON_stringify (fmmap of_json m))) k = fmlookup m k"
    proof (cases "fmlookup m k")
      case None
      then show ?thesis by (simp add: fmlookup_fm_somes)
    next
      case (Some v)
      then have "v \<in> fmran' m" by (rule fmran'I)
      then have "JSON_stringify (of_json v) = Some v" by (rule JObj.IH)
      with Some show ?thesis by (simp add: fmlookup_fm_somes)
    qed
  qed
  then show ?case by simp
qed simp_all

lemma stringify_Arr_of_json: "JSON_stringify (Arr (map of_json ts)) = Some (JArr ts)"
  using stringify_of_json[of "JArr ts"] by simp

text \<open>
  C7. Saving is \<^verbatim>\<open>fs.writeFile('todos.json', JSON.stringify(todos, null, 2))\<close> and loading
  is \<^verbatim>\<open>readTodos\<close>. When the content of the file was produced by a save, loading it
  succeeds, and saving what was loaded writes the same document again.
\<close>

theorem save_after_load_same_content:
  assumes "fs_writeFile (JSON_stringify v) s0 = (Inr (), s)"
  shows "\<exists>todos s1 s2. readTodos s = (Inr todos, s1)
           \<and> fs_writeFile (JSON_stringify todos) s1 = (Inr (), s2)
           \<and> todos_json s2 = todos_json s
           \<and> todos_json s = map_option Doc (JSON_stringify v)"
proof -
  from assms obtain d where d: "JSON_stringify v = Some d" and w: "todos_writable s0"
    and s: "s = s0\<lparr>fs_calls := fs_calls s0 @ [WriteFile ''todos.json''], todos_json := Some (Doc d)\<rparr>"
    by (auto simp: fs_writeFile_def Let_def split: option.splits if_splits)
  have r: "readTodos s = (Inr (of_json d), s\<lparr>fs_calls := fs_calls s @ [ReadFile ''todos.json'']\<rparr>)"
    by (simp add: readTodos_def fs_readFile_def s)
  show ?thesis
    unfolding r using w d
    by (simp add: fs_writeFile_def stringify_of_json s)
qed

theorem save_after_load_same_content_witness:
  "todos_json (snd (fs_writeFile (JSON_stringify (Arr [Obj (fmap_of_list [(''id'', NaN), (''title'', Undefined)])])) empty_store))
     = Some (Doc (JArr [JObj (fmap_of_list [(''id'', JNull)])]))
   \<and> (\<exists>todos s1 s2.
         readTodos (snd (fs_writeFile (JSON_stringify (Arr [Obj (fmap_of_list [(''id'', NaN), (''title'', Undefined)])])) empty_store)) = (Inr todos, s1)
       \<and> fs_writeFile (JSON_stringify todos) s1 = (Inr (), s2)
       \<and> todos_json s2 = Some (Doc (JArr [JObj (fmap_of_list [(''id'', JNull)])])))"
proof -
  let ?v = "Arr [Obj (fmap_of_list [(''id'', NaN), (''title'', Undefined)])]"
  have j: "JSON_stringify ?v = Some (JArr [JObj (fmap_of_list [(''id'', JNull)])])"
    by code_simp
  have h: "fs_writeFile (JSON_stringify ?v) empty_store = (Inr (), snd (fs_writeFile (JSON_stringify ?v) empty_store))"
    unfolding j by (simp add: fs_writeFile_def empty_store_def)
  have c: "todos_json (snd (fs_writeFile (JSON_stringify ?v) empty_store)) = Some (Doc (JArr [JObj (fmap_of_list [(''id'', JNull)])]))"
    unfolding j by (simp add: fs_writeFile_def empty_store_def)
  from save_after_load_same_content[OF h] obtain todos s1 s2 where
    "readTodos (snd (fs_writeFile (JSON_stringify ?v) empty_store)) = (Inr todos, s1)"
    "fs_writeFile (JSON_stringify todos) s1 = (Inr (), s2)"
    "todos_json s2 = todos_json (snd (fs_writeFile (JSON_stringify ?v) empty_store))"
    by blast
  with c show ?thesis by auto
qed

section \<open>Update\<close>

lemma of_json_eq_Num [simp]: "of_json v = Num n \<longleftrightarrow> v = JNum n"
  by (cases v) auto

lemma get_prop_id:
  "is_todo t \<Longrightarrow> \<exists>v. get_prop (of_json t) ''id'' = Inr v \<and> (v = Num n \<longleftrightarrow> id_of t = Some (JNum n))"
  by (cases t) (auto simp: is_todo_def id_of_def split: option.splits)



lemma find_id_missing:
  assumes "list_all is_todo ts" "\<forall>t \<in> set ts. id_of t \<noteq> Some (JNum n)"
  shows "find_id (map of_json ts) n = Inr Undefined"
  using assms
proof (induction ts)
  case Nil
  then show ?case by simp
next
  case (Cons t ts)
  from Cons.prems(1) have t: "is_todo t" by simp
  from get_prop_id[OF t, of n] obtain v where
    v: "get_prop (of_json t) ''id'' = Inr v" "v = Num n \<longleftrightarrow> id_of t = Some (JNum n)" by blast
  with Cons show ?case by simp
qed

lemma readTodos_Doc:
  "todos_json s = Some (Doc d) \<Longrightarrow>
     readTodos s = (Inr (of_json d), s\<lparr>fs_calls := fs_calls s @ [ReadFile ''todos.json'']\<rparr>)"
  by (simp add: readTodos_def fs_readFile_def)

lemma fs_writeFile_ok:
  "todos_writable s \<Longrightarrow> JSON_stringify v = Some d \<Longrightarrow>
     fs_writeFile (JSON_stringify v) s =
       (Inr (), s\<lparr>fs_calls := fs_calls s @ [WriteFile ''todos.json''], todos_json := Some (Doc d)\<rparr>)"
  by (simp add: fs_writeFile_def)


lemma readTodos_Arr:
  "todos_json s = Some (Doc (JArr ts)) \<Longrightarrow>
     readTodos s = (Inr (Arr (map of_json ts)), s\<lparr>fs_calls := fs_calls s @ [ReadFile ''todos.json'']\<rparr>)"
  by (simp add: readTodos_Doc)




section \<open>Delete\<close>


lemma getTodoById_missing:
  assumes "todos_json s = Some (Doc (JArr ts))" and "list_all is_todo ts"
    and "\<forall>t \<in> set ts. id_of t \<noteq> Some (JNum n)"
  shows "fst (getTodoById n s) = Inl (ReferenceError ''err is not defined'')"
  by (simp add: getTodoById_def readTodos_Arr[OF assms(1)] find_id_missing[OF assms(2,3)])





section \<open>Create\<close>

lemma ids_map: "\<forall>t \<in> set ts. num_id t \<noteq> None \<Longrightarrow> ids ts = map (the \<circ> num_id) ts"
  by (induction ts) (auto simp: ids_def List.map_filter_simps)

lemma ids_Nil [simp]: "ids [] = []"
  by (simp add: ids_def List.map_filter_simps)

lemma num_id_get_prop:
  "num_id t = Some n \<Longrightarrow> get_prop (of_json t) ''id'' = Inr (Num n)"
  by (cases t) (auto simp: num_id_def id_of_def split: option.splits json.splits)


lemma last_id_get_prop:
  assumes "\<forall>t \<in> set ts. num_id t \<noteq> None"
  shows "(if length (map of_json ts) > 0 then get_prop (last (map of_json ts)) ''id'' else Inr (Num 0))
           = Inr (Num (last_id ts))"
proof (cases "ts = []")
  case True
  then show ?thesis by (simp add: last_id_def)
next
  case False
  then have "last ts \<in> set ts" by simp
  with assms obtain n where n: "num_id (last ts) = Some n" by auto
  have "last (ids ts) = n"
    using False n by (simp add: ids_map[OF assms] last_map)
  with False n show ?thesis
    by (simp add: last_id_def last_map num_id_get_prop)
qed

lemma createTodo_pushed:
  assumes "readTodos s = (Inr (Arr xs), s1)"
    and "(if length xs > 0 then get_prop (last xs) ''id'' else Inr (Num 0)) = Inr lastId"
    and "get_prop newTodo ''title'' = Inr title"
    and "get_prop newTodo ''completed'' = Inr completed"
    and "todo = Obj (fmap_of_list [(''id'', plus_one lastId), (''title'', title),
                                    (''completed'', or_false completed)])"
    and "fs_writeFile (JSON_stringify (Arr (xs @ [todo]))) s1 = (Inr (), s2)"
  shows "createTodo newTodo s = (Inr todo, s2)"
proof -
  have "createTodo_try newTodo s = (Inr todo, s2)"
    unfolding createTodo_try_def assms(1) prod.case sum.case as_array.simps assms(2,3,4) Let_def
    using assms(6) unfolding assms(5) by simp
  then show ?thesis by (simp add: createTodo_def)
qed

lemma createTodo_exact:
  assumes "todos_json s = Some (Doc (JArr ts))" and "todos_writable s"
    and "\<forall>t \<in> set ts. num_id t \<noteq> None"
    and "get_prop newTodo ''title'' = Inr title"
    and "get_prop newTodo ''completed'' = Inr completed"
    and "todo = Obj (fmap_of_list [(''id'', plus_one (Num (last_id ts))), (''title'', title),
                                    (''completed'', or_false completed)])"
    and "JSON_stringify todo = Some tj"
  shows "createTodo newTodo s =
          (Inr todo, s\<lparr>fs_calls := fs_calls s @ [ReadFile ''todos.json'', WriteFile ''todos.json''],
                       todos_json := Some (Doc (JArr (ts @ [tj])))\<rparr>)"
proof -
  let ?s1 = "s\<lparr>fs_calls := fs_calls s @ [ReadFile ''todos.json'']\<rparr>"
  have w: "todos_writable ?s1" using assms(2) by simp
  have str: "JSON_stringify (Arr (map of_json ts @ [todo])) = Some (JArr (ts @ [tj]))"
    using stringify_Arr_of_json[of ts] assms(7) by simp
  have "createTodo newTodo s =
      (Inr todo, ?s1\<lparr>fs_calls := fs_calls ?s1 @ [WriteFile ''todos.json''],
                     todos_json := Some (Doc (JArr (ts @ [tj])))\<rparr>)"
    by (rule createTodo_pushed[OF readTodos_Arr[OF assms(1)] last_id_get_prop[OF assms(3)]
          assms(4,5,6) fs_writeFile_ok[OF w str]])
  then show ?thesis by simp
qed

lemma or_false_idem: "or_false (or_false x) = or_false x"
  by (simp add: or_false_def)

lemma or_false_json:
  "\<exists>cj. JSON_stringify (or_false (case c of None \<Rightarrow> Undefined | Some d \<Rightarrow> of_json d)) = Some cj
         \<and> (c = None \<longrightarrow> cj = JBool False)"
  by (cases c) (auto simp: or_false_def stringify_of_json)

lemma stringify_todo:
  assumes "JSON_stringify c = Some cj"
  shows "JSON_stringify (Obj (fmap_of_list [(''id'', Num n), (''title'', Str t), (''completed'', c)]))
     = Some (JObj (fmap_of_list [(''id'', JNum n), (''title'', JStr t), (''completed'', cj)]))"
proof -
  have "fm_somes (fmmap JSON_stringify (fmap_of_list [(''id'', Num n), (''title'', Str t), (''completed'', c)]))
      = fmap_of_list [(''id'', JNum n), (''title'', JStr t), (''completed'', cj)]"
    by (rule fmap_ext) (simp add: fmlookup_fm_somes assms)
  then show ?thesis by simp
qed

lemma sorted_le_last: "sorted xs \<Longrightarrow> x \<in> set xs \<Longrightarrow> x \<le> last (xs :: int list)"
  by (induction xs) (auto split: if_splits)

lemma exponent_small: "m < 9007199254740992 \<Longrightarrow> exponent m = 0"
  by (simp add: exponent.simps)

lemma round_even_small:
  assumes "0 \<le> m" and "m < 9007199254740992"
  shows "round_even m = m"
proof -
  have "(9007199254740992 :: int) \<le> 2 ^ 1024" by simp
  with assms(2) have "m \<le> 2 ^ 1024" by linarith
  then show ?thesis
    by (simp add: round_even_def exponent_small[OF assms(2)] min_def)
qed

lemma round_even_limit: "round_even 9007199254740992 = 9007199254740992"
  by code_simp

lemma to_double_exact:
  assumes "\<bar>n\<bar> \<le> 9007199254740992"
  shows "to_double n = n"
proof (cases "\<bar>n\<bar> = 9007199254740992")
  case True
  then show ?thesis
    using mult_sgn_abs[of n] by (simp add: to_double_def round_even_limit)
next
  case False
  with assms have "\<bar>n\<bar> < 9007199254740992" by simp
  then show ?thesis by (simp add: to_double_def round_even_small mult_sgn_abs)
qed

lemma safe_next:
  assumes "\<forall>t \<in> set ts. num_id t \<noteq> None" and "safe_ids ts"
  shows "to_double (last_id ts + 1) = last_id ts + 1"
proof -
  have "\<bar>last_id ts\<bar> < 9007199254740992"
  proof (cases "ts = []")
    case True
    then show ?thesis by (simp add: last_id_def)
  next
    case False
    then have "ids ts \<noteq> []" by (simp add: ids_map[OF assms(1)])
    then have "last (ids ts) \<in> set (ids ts)" by simp
    with assms(2) False show ?thesis by (simp add: safe_ids_def list_all_iff last_id_def)
  qed
  then show ?thesis by (intro to_double_exact) simp
qed

lemma server_post_created:
  assumes "todos_json s = Some (Doc (JArr ts))" and "todos_writable s"
    and "\<forall>t \<in> set ts. num_id t \<noteq> None" and "safe_ids ts"
    and "fmlookup b ''title'' = Some (JStr t)" and "t \<noteq> []"
  shows "\<exists>c s'.
           server (POST_todos (Some (JObj b))) s =
             (\<lparr>statusCode = 200, contentType = Some ''application/json'',
               payload = Json (JObj (fmap_of_list
                  [(''id'', JNum (last_id ts + 1)), (''title'', JStr t), (''completed'', c)]))\<rparr>, s')
         \<and> (fmlookup b ''completed'' = None \<longrightarrow> c = JBool False)
         \<and> todos_json s' = Some (Doc (JArr (ts @ [JObj (fmap_of_list
                  [(''id'', JNum (last_id ts + 1)), (''title'', JStr t), (''completed'', c)])])))"
proof -
  let ?req = "POST_todos (Some (JObj b))"
  let ?s0 = "logs_emit (req_method ?req @ '' - '' @ req_url ?req) s"
  let ?c0 = "case fmlookup b ''completed'' of None \<Rightarrow> Undefined | Some d \<Rightarrow> of_json d"
  let ?newTodo = "Obj (fmap_of_list [(''title'', Str t), (''completed'', or_false ?c0)])"
  let ?n = "last_id ts + 1"
  from or_false_json[of "fmlookup b ''completed''"] obtain cj where
    cj: "JSON_stringify (or_false ?c0) = Some cj" "fmlookup b ''completed'' = None \<longrightarrow> cj = JBool False"
    by (elim exE conjE)
  let ?todo = "Obj (fmap_of_list [(''id'', Num ?n), (''title'', Str t), (''completed'', or_false ?c0)])"
  let ?tj = "JObj (fmap_of_list [(''id'', JNum ?n), (''title'', JStr t), (''completed'', cj)])"
  have f0: "todos_json ?s0 = Some (Doc (JArr ts))" and w0: "todos_writable ?s0"
    using assms(1,2) by simp_all
  have tj: "JSON_stringify ?todo = Some ?tj" by (rule stringify_todo[OF cj(1)])
  have td: "?todo = Obj (fmap_of_list [(''id'', plus_one (Num (last_id ts))), (''title'', Str t),
                                    (''completed'', or_false (or_false ?c0))])"
    by (simp add: or_false_idem safe_next[OF assms(3,4)])
  have cr: "createTodo ?newTodo ?s0 =
      (Inr ?todo, ?s0\<lparr>fs_calls := fs_calls ?s0 @ [ReadFile ''todos.json'', WriteFile ''todos.json''],
                       todos_json := Some (Doc (JArr (ts @ [?tj])))\<rparr>)"
    by (rule createTodo_exact[OF f0 w0 assms(3) _ _ td tj]) simp_all
  have "post_todo ?req s =
      (\<lparr>statusCode = 200, contentType = Some ''application/json'', payload = Json ?tj\<rparr>,
       ?s0\<lparr>fs_calls := fs_calls ?s0 @ [ReadFile ''todos.json'', WriteFile ''todos.json''],
                       todos_json := Some (Doc (JArr (ts @ [?tj])))\<rparr>)"
    using assms(5,6) cr tj
    by (simp add: post_todo_def POST_todos_def Let_def end_json_def split: option.splits)
  then have srv: "server ?req s =
      (\<lparr>statusCode = 200, contentType = Some ''application/json'', payload = Json ?tj\<rparr>,
       ?s0\<lparr>fs_calls := fs_calls ?s0 @ [ReadFile ''todos.json'', WriteFile ''todos.json''],
                       todos_json := Some (Doc (JArr (ts @ [?tj])))\<rparr>)"
    by (simp add: server_def POST_todos_def)
  show ?thesis
    using srv cj(2) by (intro exI[of _ cj]) simp
qed

text \<open>
  C4, as amended. With a collection that is well ordered and whose ids are safe integers,
  a file that can be written and a log that can be appended to, a POST whose body is an
  object with a title that is a string and not empty is answered 200 with the created
  todo: its id is greater than every id of the collection, its title is the title of the
  body, and its \<^verbatim>\<open>completed\<close> is \<^verbatim>\<open>false\<close> when the body has none. The todo is appended
  to the saved collection.
\<close>

theorem create_assigns_greater_id:
  assumes "todos_json s = Some (Doc (JArr ts))" and "todos_writable s" and "logs_appendable s"
    and "well_ordered ts" and "safe_ids ts"
    and "fmlookup b ''title'' = Some (JStr t)" and "t \<noteq> []"
  shows "\<exists>n c s'.
           server (POST_todos (Some (JObj b))) s =
             (\<lparr>statusCode = 200, contentType = Some ''application/json'',
               payload = Json (JObj (fmap_of_list
                  [(''id'', JNum n), (''title'', JStr t), (''completed'', c)]))\<rparr>, s')
         \<and> (\<forall>m \<in> set (ids ts). m < n)
         \<and> (fmlookup b ''completed'' = None \<longrightarrow> c = JBool False)
         \<and> todos_json s' = Some (Doc (JArr (ts @ [JObj (fmap_of_list
                  [(''id'', JNum n), (''title'', JStr t), (''completed'', c)])])))"
proof -
  have all: "\<forall>t \<in> set ts. num_id t \<noteq> None" and srt: "sorted (ids ts)"
    using assms(4) by (simp_all add: well_ordered_def)
  have gt: "\<forall>m \<in> set (ids ts). m < last_id ts + 1"
  proof
    fix m assume m: "m \<in> set (ids ts)"
    then have "ts \<noteq> []" by auto
    with sorted_le_last[OF srt m] show "m < last_id ts + 1" by (simp add: last_id_def)
  qed
  from server_post_created[OF assms(1,2) all assms(5,6,7)] obtain c s' where
    r: "server (POST_todos (Some (JObj b))) s =
             (\<lparr>statusCode = 200, contentType = Some ''application/json'',
               payload = Json (JObj (fmap_of_list
                  [(''id'', JNum (last_id ts + 1)), (''title'', JStr t), (''completed'', c)]))\<rparr>, s')"
       "fmlookup b ''completed'' = None \<longrightarrow> c = JBool False"
       "todos_json s' = Some (Doc (JArr (ts @ [JObj (fmap_of_list
                  [(''id'', JNum (last_id ts + 1)), (''title'', JStr t), (''completed'', c)])])))"
    by (elim exE conjE)
  show ?thesis
    by (rule exI[of _ "last_id ts + 1"], rule exI[of _ c], rule exI[of _ s']) (intro conjI r gt)
qed

theorem create_assigns_greater_id_witness:
  "well_ordered [todo_json 1 ''a'' False, todo_json 3 ''c'' True]
   \<and> safe_ids [todo_json 1 ''a'' False, todo_json 3 ''c'' True]
   \<and> (\<exists>n. fst (server (POST_todos (Some (JObj (fmap_of_list [(''title'', JStr ''buy milk'')]))))
                  (store_of [todo_json 1 ''a'' False, todo_json 3 ''c'' True])) =
             \<lparr>statusCode = 200, contentType = Some ''application/json'',
              payload = Json (todo_json n ''buy milk'' False)\<rparr>
          \<and> 1 < n \<and> 3 < n)"
proof -
  let ?ts = "[todo_json 1 ''a'' False, todo_json 3 ''c'' True]"
  let ?b = "fmap_of_list [(''title'', JStr ''buy milk'')]"
  have i: "ids ?ts = [1, 3]" by code_simp
  have h1: "todos_json (store_of ?ts) = Some (Doc (JArr ?ts))" by (simp add: store_of_def)
  have h2: "todos_writable (store_of ?ts)" by (simp add: store_of_def empty_store_def)
  have h2': "logs_appendable (store_of ?ts)" by (simp add: store_of_def empty_store_def)
  have h3: "well_ordered ?ts"
    unfolding well_ordered_def i by (simp add: num_id_def id_of_def todo_json_def)
  have h3': "safe_ids ?ts" unfolding safe_ids_def i by simp
  have h4: "fmlookup ?b ''title'' = Some (JStr ''buy milk'')" by simp
  have h5: "''buy milk'' \<noteq> []" by simp
  have h6: "fmlookup ?b ''completed'' = None" by simp
  from create_assigns_greater_id[OF h1 h2 h2' h3 h3' h4 h5] obtain n c s' where
    r: "server (POST_todos (Some (JObj ?b))) (store_of ?ts) =
             (\<lparr>statusCode = 200, contentType = Some ''application/json'',
               payload = Json (JObj (fmap_of_list
                  [(''id'', JNum n), (''title'', JStr ''buy milk''), (''completed'', c)]))\<rparr>, s')"
       "\<forall>m \<in> set (ids ?ts). m < n"
       "fmlookup ?b ''completed'' = None \<longrightarrow> c = JBool False"
    by (elim exE conjE)
  from r(3) h6 have c: "c = JBool False" by blast
  from r(2) have n: "1 < n \<and> 3 < n" unfolding i by simp
  have "fst (server (POST_todos (Some (JObj ?b))) (store_of ?ts)) =
             \<lparr>statusCode = 200, contentType = Some ''application/json'',
              payload = Json (todo_json n ''buy milk'' False)\<rparr>"
    by (subst r(1)) (simp add: c todo_json_def)
  with n h3 h3' show ?thesis by blast
qed

text \<open>
  C4 as stated fails on the well ordered collection whose one todo has the id \<open>2 ^ 53\<close>:
  \<^verbatim>\<open>lastId + 1\<close> is \<open>2 ^ 53\<close> again, so the created todo has the id of the stored one.
\<close>

theorem create_at_limit_counterexample:
  "well_ordered [todo_json 9007199254740992 ''a'' False]
   \<and> fst (server (POST_todos (Some (JObj (fmap_of_list [(''title'', JStr ''b'')]))))
            (store_of [todo_json 9007199254740992 ''a'' False])) =
       \<lparr>statusCode = 200, contentType = Some ''application/json'',
        payload = Json (todo_json 9007199254740992 ''b'' False)\<rparr>"
  by code_simp

section \<open>Ids stay unique\<close>








subsection \<open>Ascending ids\<close>










subsection \<open>What each write operation does to the file\<close>








subsection \<open>What each request does to the file\<close>












section \<open>The check of the id\<close>




subsection \<open>Strings that begin with an integer\<close>










subsection \<open>The id that is looked up\<close>










end
